theory Spec2Isabelle
  imports Main "HOL-Library.Sublist"
begin

section \<open>JavaScript values\<close>

text \<open>
  The themes utility module works on plain JavaScript data: query objects, theme
  objects and the strings that serialize them. A value is modelled by \<open>jsval\<close>.

  \<^item> A string is a \<open>string\<close>: a list of code units below 256 (the Latin-1 range).
  \<^item> A number is \<open>JNum n\<close> for an integer-valued number, \<open>JInfinity\<close> or \<open>JNaN\<close>.
    Fractions and negative infinity are not represented. Printing a number as a
    decimal numeral is what JavaScript does for \<open>\<bar>n\<bar> < 2 ^ 53\<close>; the theorems that
    print a number carry that bound.
  \<^item> An object is the list of its own enumerable properties, in enumeration order,
    with distinct keys. It inherits from \<open>Object.prototype\<close>, whose properties are
    built-in functions and objects.
  \<^item> There are no function values among the data, so no object has methods of its own
    and no value of a query or a theme is one of the built-ins.
\<close>

datatype jsval =
    JUndefined
  | JNull
  | JBool bool
  | JNum int
  | JInfinity
  | JNaN
  | JStr string
  | JArr "jsval list"
  | JObj "(string \<times> jsval) list"

type_synonym jsobj = "(string \<times> jsval) list"

datatype error = TypeError

text \<open>Truthiness: what \<open>if (v)\<close>, \<open>!v\<close>, \<open>v && w\<close> and \<open>v || w\<close> test.\<close>

fun truthy :: "jsval \<Rightarrow> bool" where
  "truthy JUndefined = False"
| "truthy JNull = False"
| "truthy (JBool b) = b"
| "truthy (JNum n) = (n \<noteq> 0)"
| "truthy JInfinity = True"
| "truthy JNaN = False"
| "truthy (JStr s) = (s \<noteq> [])"
| "truthy (JArr xs) = True"
| "truthy (JObj ps) = True"

definition js_and :: "jsval \<Rightarrow> jsval \<Rightarrow> jsval" where
  "js_and v w = (if truthy v then w else v)"

definition js_or :: "jsval \<Rightarrow> jsval \<Rightarrow> jsval" where
  "js_or v w = (if truthy v then v else w)"

text \<open>
  Strict equality \<open>v === w\<close>. \<open>NaN\<close> is not equal to itself. Arrays and objects are
  compared by identity in JavaScript; a value of a query is never the same object as a
  value of the default query, so two arrays or two objects are never strictly equal here.
\<close>

definition strict_equals :: "jsval \<Rightarrow> jsval \<Rightarrow> bool" where
  "strict_equals v w =
     (case (v, w) of
        (JUndefined, JUndefined) \<Rightarrow> True
      | (JNull, JNull) \<Rightarrow> True
      | (JBool a, JBool b) \<Rightarrow> a = b
      | (JNum a, JNum b) \<Rightarrow> a = b
      | (JInfinity, JInfinity) \<Rightarrow> True
      | (JStr a, JStr b) \<Rightarrow> a = b
      | _ \<Rightarrow> False)"

text \<open>
  \<open>o[k]\<close> on an object for a key that is no name of \<open>Object.prototype\<close> (the names this
  module reads, and indices): the value of the own property, or \<open>undefined\<close>.
\<close>

definition obj_get :: "jsobj \<Rightarrow> string \<Rightarrow> jsval" where
  "obj_get ps k = (case map_of ps k of None \<Rightarrow> JUndefined | Some v \<Rightarrow> v)"

text \<open>
  The property names of \<open>Object.prototype\<close> in the language standard. A plain object
  that has no own property of such a name inherits a built-in under it.
\<close>

definition object_prototype_names :: "string list" where
  "object_prototype_names =
     [''constructor'', ''hasOwnProperty'', ''isPrototypeOf'', ''propertyIsEnumerable'',
      ''toLocaleString'', ''toString'', ''valueOf'', ''__proto__'',
      ''__defineGetter__'', ''__defineSetter__'', ''__lookupGetter__'', ''__lookupSetter__'']"

definition inherited_name :: "string \<Rightarrow> bool" where
  "inherited_name k = (k \<in> set object_prototype_names)"

text \<open>
  \<open>o[k]\<close> on a plain object, for any key: the value of the own property; otherwise
  the inherited built-in for a name of \<open>Object.prototype\<close>, which is \<open>None\<close> here, since
  it is no value of the data; otherwise \<open>undefined\<close>.
\<close>

definition js_index :: "jsobj \<Rightarrow> string \<Rightarrow> jsval option" where
  "js_index ps k =
     (case map_of ps k of
        Some v \<Rightarrow> Some v
      | None \<Rightarrow> if inherited_name k then None else Some JUndefined)"

text \<open>\<open>o[k] === v\<close> on a plain object: a built-in is strictly equal to no value of the data.\<close>

definition index_equals :: "jsobj \<Rightarrow> string \<Rightarrow> jsval \<Rightarrow> bool" where
  "index_equals ps k v = (case js_index ps k of None \<Rightarrow> False | Some w \<Rightarrow> strict_equals w v)"

text \<open>
  \<open>o[k] = v\<close> on an object: an existing property keeps its place, a new one goes last.
\<close>

fun obj_put :: "jsobj \<Rightarrow> string \<Rightarrow> jsval \<Rightarrow> jsobj" where
  "obj_put [] k v = [(k, v)]"
| "obj_put ((k', w) # ps) k v = (if k' = k then (k, v) # ps else (k', w) # obj_put ps k v)"

text \<open>
  \<open>v.k\<close> for one of the property names this module reads (none of them is \<open>length\<close> or
  an index). \<open>js_member\<close> is the access on a value that is not \<open>undefined\<close> or \<open>null\<close>:
  the own property of an object, \<open>undefined\<close> on every other value. \<open>js_prop\<close> is the
  access on any value, a \<open>TypeError\<close> on \<open>undefined\<close> and \<open>null\<close>.
\<close>

definition js_member :: "jsval \<Rightarrow> string \<Rightarrow> jsval" where
  "js_member v k = (case v of JObj ps \<Rightarrow> obj_get ps k | _ \<Rightarrow> JUndefined)"

definition js_prop :: "jsval \<Rightarrow> string \<Rightarrow> error + jsval" where
  "js_prop v k = (if v = JUndefined \<or> v = JNull then Inl TypeError else Inr (js_member v k))"

definition err_bind :: "error + 'a \<Rightarrow> ('a \<Rightarrow> error + 'b) \<Rightarrow> error + 'b" where
  "err_bind m f = (case m of Inl e \<Rightarrow> Inl e | Inr x \<Rightarrow> f x)"

section \<open>Strings and numbers\<close>

text \<open>\<open>join_with sep\<close> puts \<open>sep\<close> between the pieces, as \<open>Array.prototype.join\<close> does.\<close>

fun join_with :: "string \<Rightarrow> string list \<Rightarrow> string" where
  "join_with sep [] = []"
| "join_with sep [x] = x"
| "join_with sep (x # y # ys) = x @ sep @ join_with sep (y # ys)"

definition digit_char :: "nat \<Rightarrow> char" where
  "digit_char d = char_of (48 + d)"

fun digits_of_nat :: "nat \<Rightarrow> string" where
  "digits_of_nat n = (if n < 10 then [digit_char n] else digits_of_nat (n div 10) @ [digit_char (n mod 10)])"

declare digits_of_nat.simps [simp del]

text \<open>\<open>String(n)\<close> for an integer-valued number, exact for \<open>\<bar>n\<bar> < 2 ^ 53\<close>.\<close>

definition number_to_string :: "int \<Rightarrow> string" where
  "number_to_string n = (if n < 0 then CHR ''-'' # digits_of_nat (nat (- n)) else digits_of_nat (nat n))"

text \<open>
  \<open>String(v)\<close>. An array prints its elements separated by commas, with \<open>undefined\<close> and
  \<open>null\<close> elements printed as nothing; a plain object prints as \<open>[object Object]\<close>.
\<close>

fun js_toString :: "jsval \<Rightarrow> string" and join_elems :: "jsval list \<Rightarrow> string list" where
  "js_toString JUndefined = ''undefined''"
| "js_toString JNull = ''null''"
| "js_toString (JBool b) = (if b then ''true'' else ''false'')"
| "js_toString (JNum n) = number_to_string n"
| "js_toString JInfinity = ''Infinity''"
| "js_toString JNaN = ''NaN''"
| "js_toString (JStr s) = s"
| "js_toString (JArr xs) = join_with '','' (join_elems xs)"
| "js_toString (JObj ps) = ''[object Object]''"
| "join_elems [] = []"
| "join_elems (x # xs) =
     (if x = JUndefined \<or> x = JNull then [] else js_toString x) # join_elems xs"

text \<open>\<open>xs.join(sep)\<close> on an array.\<close>

definition array_join :: "jsval list \<Rightarrow> string \<Rightarrow> string" where
  "array_join xs sep = join_with sep (join_elems xs)"






section \<open>lodash\<close>

text \<open>
  The lodash functions the module imports, after lodash 4. A collection is visited as
  lodash \<open>baseEach\<close> does: an array and a string by index, an object with a numeric
  \<open>length\<close> property (array-like) by the indices below that length, any other object by
  its own properties, every other value not at all. \<open>lodash_entries\<close> lists the pairs
  (value, key) that the iteratee receives.
\<close>

definition array_like_length :: "jsobj \<Rightarrow> nat option" where
  "array_like_length ps =
     (case obj_get ps ''length'' of
        JNum n \<Rightarrow> if 0 \<le> n \<and> n \<le> 2 ^ 53 - 1 then Some (nat n) else None
      | _ \<Rightarrow> None)"

definition indexed :: "jsval list \<Rightarrow> (jsval \<times> jsval) list" where
  "indexed xs = zip xs (map (\<lambda>i. JNum (int i)) [0 ..< length xs])"

definition lodash_entries :: "jsval \<Rightarrow> (jsval \<times> jsval) list" where
  "lodash_entries c =
     (case c of
        JArr xs \<Rightarrow> indexed xs
      | JStr s \<Rightarrow> indexed (map (\<lambda>ch. JStr [ch]) s)
      | JObj ps \<Rightarrow>
          (case array_like_length ps of
             Some n \<Rightarrow> map (\<lambda>i. (obj_get ps (digits_of_nat i), JNum (int i))) [0 ..< n]
           | None \<Rightarrow> map (\<lambda>(k, v). (v, JStr k)) ps)
      | _ \<Rightarrow> [])"

definition map_lodash :: "jsval \<Rightarrow> (jsval \<Rightarrow> jsval \<Rightarrow> jsval) \<Rightarrow> jsval list" where
  "map_lodash c f = map (\<lambda>(v, k). f v k) (lodash_entries c)"






text \<open>
  \<open>toString(value)\<close> of lodash: the empty string for \<open>undefined\<close> and \<open>null\<close>, the
  value's own string otherwise. \<open>startsWith(string, target)\<close> converts its first argument
  with it.
\<close>

definition lodash_toString :: "jsval \<Rightarrow> string" where
  "lodash_toString v = (if v = JUndefined \<or> v = JNull then [] else js_toString v)"

definition startsWith :: "jsval \<Rightarrow> string \<Rightarrow> bool" where
  "startsWith v target = prefix target (lodash_toString v)"

text \<open>
  \<open>get(object, key, defaultValue)\<close> with a plain key: the default for \<open>undefined\<close> and
  \<open>null\<close> objects and where the property resolves to \<open>undefined\<close>.
\<close>

definition get_lodash :: "jsval \<Rightarrow> string \<Rightarrow> jsval \<Rightarrow> jsval" where
  "get_lodash v k d = (let r = js_member v k in if r = JUndefined then d else r)"

text \<open>\<open>omit(object, key)\<close>: the properties other than \<open>key\<close>.\<close>

definition omit :: "jsobj \<Rightarrow> string \<Rightarrow> jsobj" where
  "omit ps k = filter (\<lambda>(k', v). k' \<noteq> k) ps"

text \<open>
  \<open>omitBy(object, predicate)\<close>: the properties whose predicate is falsy, as in the
  lodash releases of the repository's time. (Later releases of lodash 4 also leave the
  keys \<open>__proto__\<close>, \<open>constructor\<close> and \<open>prototype\<close> out of the result, whatever the
  predicate says; the statements about single keys below set these three keys aside.)
\<close>

definition omitBy :: "jsobj \<Rightarrow> (jsval \<Rightarrow> string \<Rightarrow> bool) \<Rightarrow> jsobj" where
  "omitBy ps p = filter (\<lambda>(k, v). \<not> p v k) ps"

text \<open>
  \<open>mapKeys(object, iteratee)\<close>: starting from the empty object, each property in turn
  is assigned under its new key, so of two properties that get the same new key the
  later one's value stays.
\<close>

definition mapKeys :: "jsobj \<Rightarrow> (jsval \<Rightarrow> string \<Rightarrow> string) \<Rightarrow> jsobj" where
  "mapKeys ps f = foldl (\<lambda>result (k, v). obj_put result (f v k) v) [] ps"

text \<open>The object spread \<open>{ ...a, ...b }\<close>.\<close>

definition spread :: "jsobj \<Rightarrow> jsobj \<Rightarrow> jsobj" where
  "spread a b = foldl (\<lambda>result (k, v). obj_put result k v) a b"

section \<open>Premium classifiers\<close>

definition isPremium :: "jsval \<Rightarrow> jsval" where
  "isPremium theme =
     (let themeStylesheet = get_lodash theme ''stylesheet'' (JBool False)
      in js_and themeStylesheet (JBool (startsWith themeStylesheet ''premium/'')))"

definition isPremiumTheme :: "jsval \<Rightarrow> bool" where
  "isPremiumTheme theme =
     (if \<not> truthy theme then False
      else if truthy (js_member theme ''stylesheet'')
              \<and> startsWith (js_member theme ''stylesheet'') ''premium/'' then True
      else truthy (js_and (js_member theme ''cost'')
                          (js_member (js_member theme ''cost'') ''number'')))"

section \<open>Theme normalizers\<close>

text \<open>
  \<open>normalizeJetpackTheme(theme = {})\<close>: an omitted or \<open>undefined\<close> argument is the empty
  object. Only an object can have a truthy \<open>tags\<close>, so the second branch sees an object.
\<close>

definition normalizeJetpackTheme :: "jsval \<Rightarrow> error + jsval" where
  "normalizeJetpackTheme theme0 =
     (let theme = (if theme0 = JUndefined then JObj [] else theme0)
      in err_bind (js_prop theme ''tags'') (\<lambda>tags.
           if \<not> truthy tags then Inr theme
           else (case theme of
                   JObj ps \<Rightarrow>
                     Inr (JObj (obj_put (omit ps ''tags'') ''taxonomies''
                       (JObj [(''theme_feature'',
                          JArr (map_lodash tags (\<lambda>slug _. JObj [(''slug'', slug)])))])))
                 | _ \<Rightarrow> Inr theme)))"

text \<open>
  \<open>get(attributesMap, key, key)\<close> on a table of renamings, and the key that \<open>mapKeys\<close>
  makes of the result. An own key of the table gives its entry. lodash reads any other
  key as a path when it has a dot, or an opening bracket with a closing bracket
  somewhere after it (\<open>path_like\<close>); a path can lead into the entries of the table and
  their built-in properties (\<open>slug.length\<close> gives 2). A key that is no path is looked up
  as it is: it gives itself, unless it is a name of \<open>Object.prototype\<close>, where \<open>get\<close>
  returns the inherited built-in. What a path leads to and what a built-in becomes as a
  key (the text of a function, say) is not modelled: for the keys of these two kinds the
  new key is given by the argument \<open>builtin_key\<close>.
\<close>

definition path_like :: "string \<Rightarrow> bool" where
  "path_like k =
     (CHR ''.'' \<in> set k \<or> CHR '']'' \<in> set (dropWhile (\<lambda>c. c \<noteq> CHR ''['') k))"

definition rename_key :: "(string \<times> string) list \<Rightarrow> (string \<Rightarrow> string) \<Rightarrow> string \<Rightarrow> string" where
  "rename_key attributesMap builtin_key key =
     (case map_of attributesMap key of
        Some k' \<Rightarrow> k'
      | None \<Rightarrow> if path_like key \<or> inherited_name key then builtin_key key else key)"

definition normalizeWpcomTheme :: "(string \<Rightarrow> string) \<Rightarrow> jsobj \<Rightarrow> jsobj" where
  "normalizeWpcomTheme builtin_key theme =
     (let attributesMap =
        [(''description_long'', ''descriptionLong''),
         (''support_documentation'', ''supportDocumentation''),
         (''download_uri'', ''download'')]
      in mapKeys theme (\<lambda>value key. rename_key attributesMap builtin_key key))"

definition normalizeWporgTheme :: "(string \<Rightarrow> string) \<Rightarrow> jsobj \<Rightarrow> jsobj" where
  "normalizeWporgTheme builtin_key theme =
     (let attributesMap =
        [(''slug'', ''id''),
         (''preview_url'', ''demo_uri''),
         (''screenshot_url'', ''screenshot''),
         (''download_link'', ''download'')];
        normalizedTheme = mapKeys theme (\<lambda>value key. rename_key attributesMap builtin_key key)
      in if \<not> truthy (obj_get normalizedTheme ''tags'') then normalizedTheme
         else obj_put (omit normalizedTheme ''tags'') ''taxonomies''
                (JObj [(''theme_feature'',
                   JArr (map_lodash (obj_get normalizedTheme ''tags'')
                          (\<lambda>name slug. JObj [(''name'', name), (''slug'', slug)])))]))"

section \<open>JSON.stringify\<close>

text \<open>
  \<open>QuoteJSONString\<close>: the double quote and the backslash are escaped with a backslash,
  the control characters below \<open>0x20\<close> by their short escape or by \<open>\u00XX\<close> in lower-case
  hexadecimal, every other code unit stands for itself.
\<close>

definition hex_char :: "nat \<Rightarrow> char" where
  "hex_char d = (if d < 10 then char_of (48 + d) else char_of (87 + d))"

definition json_escape :: "char \<Rightarrow> string" where
  "json_escape c =
     (let n = (of_char c :: nat)
      in if n = 0x22 then [CHR 0x5C, CHR 0x22]
         else if n = 0x5C then [CHR 0x5C, CHR 0x5C]
         else if n = 0x08 then [CHR 0x5C, CHR ''b'']
         else if n = 0x09 then [CHR 0x5C, CHR ''t'']
         else if n = 0x0A then [CHR 0x5C, CHR ''n'']
         else if n = 0x0C then [CHR 0x5C, CHR ''f'']
         else if n = 0x0D then [CHR 0x5C, CHR ''r'']
         else if n < 0x20 then [CHR 0x5C, CHR ''u'', CHR ''0'', CHR ''0'', hex_char (n div 16), hex_char (n mod 16)]
         else [c])"

definition json_quote :: "string \<Rightarrow> string" where
  "json_quote s = CHR 0x22 # concat (map json_escape s) @ [CHR 0x22]"

text \<open>
  \<open>SerializeJSONProperty\<close>: \<open>None\<close> is the result \<open>undefined\<close>. A property whose value
  serializes to \<open>undefined\<close> is left out of its object; such an element of an array is
  written \<open>null\<close>, as are \<open>NaN\<close> and \<open>Infinity\<close>.
\<close>

fun json_value :: "jsval \<Rightarrow> string option"
  and json_elems :: "jsval list \<Rightarrow> string list"
  and json_members :: "(string \<times> jsval) list \<Rightarrow> string list" where
  "json_value JUndefined = None"
| "json_value JNull = Some ''null''"
| "json_value (JBool b) = Some (if b then ''true'' else ''false'')"
| "json_value (JNum n) = Some (number_to_string n)"
| "json_value JInfinity = Some ''null''"
| "json_value JNaN = Some ''null''"
| "json_value (JStr s) = Some (json_quote s)"
| "json_value (JArr xs) = Some (''['' @ join_with '','' (json_elems xs) @ '']'')"
| "json_value (JObj ps) = Some (''{'' @ join_with '','' (json_members ps) @ ''}'')"
| "json_elems [] = []"
| "json_elems (x # xs) = (case json_value x of None \<Rightarrow> ''null'' | Some t \<Rightarrow> t) # json_elems xs"
| "json_members [] = []"
| "json_members ((k, v) # ps) =
     (case json_value v of
        None \<Rightarrow> json_members ps
      | Some t \<Rightarrow> (json_quote k @ '':'' @ t) # json_members ps)"

text \<open>\<open>JSON.stringify\<close> of an object, which is always a string.\<close>

definition JSON_stringify :: "jsobj \<Rightarrow> string" where
  "JSON_stringify ps = ''{'' @ join_with '','' (json_members ps) @ ''}''"

section \<open>The query canonicalizer\<close>

text \<open>
  \<open>DEFAULT_THEME_QUERY\<close> is imported from \<open>./constants\<close>, which is not among the
  sources: every function that reads it takes it as its first argument \<open>dflt\<close>.
\<close>

definition getNormalizedThemesQuery :: "jsobj \<Rightarrow> jsobj \<Rightarrow> jsobj" where
  "getNormalizedThemesQuery dflt query =
     omitBy query (\<lambda>value key. index_equals dflt key value)"

text \<open>
  Modelled from the spec: the default query of \<open>./constants\<close>, which is missing from
  the sources; the spec gives \<open>search: ''\<close> and \<open>filter: ''\<close> as its entries. It is used
  only to evaluate the functions at concrete inputs.
\<close>

definition DEFAULT_THEME_QUERY :: jsobj where
  "DEFAULT_THEME_QUERY = [(''search'', JStr []), (''filter'', JStr [])]"

text \<open>
  \<open>getSerializedThemesQuery(query = {}, siteId)\<close>: \<open>None\<close> is an omitted query.
\<close>

definition getSerializedThemesQuery :: "jsobj \<Rightarrow> jsobj option \<Rightarrow> jsval \<Rightarrow> string" where
  "getSerializedThemesQuery dflt query siteId =
     (let normalizedQuery = getNormalizedThemesQuery dflt (case query of None \<Rightarrow> [] | Some q \<Rightarrow> q);
          serializedQuery = JSON_stringify normalizedQuery
      in if truthy siteId then array_join [siteId, JStr serializedQuery] '':''
         else serializedQuery)"

definition getSerializedThemesQueryWithoutPage :: "jsobj \<Rightarrow> jsobj \<Rightarrow> jsval \<Rightarrow> string" where
  "getSerializedThemesQueryWithoutPage dflt query siteId =
     getSerializedThemesQuery dflt (Some (omit query ''page'')) siteId"

text \<open>
  \<open>REGEXP_SERIALIZED_QUERY = /^(?:(\d+):)?(.*)$/\<close>. The dot matches every code unit
  but a line terminator and \<open>$\<close> only the end of the input, so a string with a line
  terminator has no match. Otherwise the first group is the leading run of digits if it
  is not empty and a colon follows it, and the second group is the rest; without such a
  run the first group is unset and the second group is the whole string. (The
  separators \<open>U+2028\<close> and \<open>U+2029\<close> are line terminators too; they lie above the code
  units of this model.)
\<close>

definition is_digit :: "char \<Rightarrow> bool" where
  "is_digit c = (48 \<le> (of_char c :: nat) \<and> (of_char c :: nat) \<le> 57)"

definition is_line_terminator :: "char \<Rightarrow> bool" where
  "is_line_terminator c = ((of_char c :: nat) = 0x0A \<or> (of_char c :: nat) = 0x0D)"

definition REGEXP_SERIALIZED_QUERY :: "string \<Rightarrow> (string option \<times> string) option" where
  "REGEXP_SERIALIZED_QUERY s =
     (if list_ex is_line_terminator s then None
      else (case dropWhile is_digit s of
              c # rest \<Rightarrow>
                if takeWhile is_digit s \<noteq> [] \<and> c = CHR '':''
                then Some (Some (takeWhile is_digit s), rest)
                else Some (None, s)
            | [] \<Rightarrow> Some (None, s)))"

text \<open>
  \<open>Number(matches[1])\<close>: \<open>NaN\<close> for an unset group; for a run of decimal digits, its
  value rounded to the nearest double (ties to even), which is the value itself below
  \<open>2 ^ 53\<close> and \<open>Infinity\<close> from \<open>2 ^ 1024 - 2 ^ 970\<close> on. (The language
  standard lets an engine approximate the digits after the twentieth; the result is a
  positive integer or \<open>Infinity\<close> either way.)
\<close>

fun bit_length :: "nat \<Rightarrow> nat" where
  "bit_length n = (if n = 0 then 0 else Suc (bit_length (n div 2)))"

declare bit_length.simps [simp del]

definition round_to_double :: "nat \<Rightarrow> jsval" where
  "round_to_double v =
     (if v < 2 ^ 53 then JNum (int v)
      else if 2 ^ 1024 - 2 ^ 970 \<le> v then JInfinity
      else (let e = bit_length v - 53;
                q = v div 2 ^ e;
                r = v mod 2 ^ e;
                q' = (if 2 ^ (e - 1) < r \<or> (r = 2 ^ (e - 1) \<and> odd q) then q + 1 else q)
            in JNum (int (q' * 2 ^ e))))"

definition decimal_value :: "string \<Rightarrow> nat" where
  "decimal_value ds = foldl (\<lambda>a c. 10 * a + (of_char c - 48)) 0 ds"

definition Number_of_group :: "string option \<Rightarrow> jsval" where
  "Number_of_group g = (case g of None \<Rightarrow> JNaN | Some ds \<Rightarrow> round_to_double (decimal_value ds))"

section \<open>The predicate matcher\<close>








section \<open>Reading a serialized query back\<close>

record details =
  siteId :: jsval
  query :: jsval

text \<open>
  \<open>JSON.parse\<close> is the argument \<open>parse\<close>: \<open>None\<close> is the \<open>SyntaxError\<close> it throws, which
  the \<open>catch\<close> swallows, leaving \<open>query\<close> unset.
\<close>

definition getDeserializedThemesQueryDetails :: "(string \<Rightarrow> jsval option) \<Rightarrow> string \<Rightarrow> details" where
  "getDeserializedThemesQueryDetails parse serializedQuery =
     (case REGEXP_SERIALIZED_QUERY serializedQuery of
        None \<Rightarrow> \<lparr>siteId = JUndefined, query = JUndefined\<rparr>
      | Some (g1, g2) \<Rightarrow>
          \<lparr>siteId = js_or (Number_of_group g1) JUndefined,
           query = (case parse g2 of None \<Rightarrow> JUndefined | Some v \<Rightarrow> v)\<rparr>)"

section \<open>JSON.parse\<close>

text \<open>
  \<open>JSON.parse\<close> as a recursive-descent reader of the JSON grammar; \<open>None\<close> is the
  \<open>SyntaxError\<close>. Each reader returns the value it read and the rest of the text.
  Two kinds of text that JavaScript reads have a value that \<open>jsval\<close> cannot hold, and
  the reader gives \<open>None\<close> for them too: a number with a fraction or an exponent (or below
  the double range), and an escape \<open>\uXXXX\<close> of a code unit above \<open>0x00FF\<close>.
  \<open>JSON.stringify\<close> never writes either for the values of this model.
\<close>

definition is_ws :: "char \<Rightarrow> bool" where
  "is_ws c = ((of_char c :: nat) = 0x20 \<or> (of_char c :: nat) = 0x09
              \<or> (of_char c :: nat) = 0x0A \<or> (of_char c :: nat) = 0x0D)"

definition skip_ws :: "string \<Rightarrow> string" where
  "skip_ws s = dropWhile is_ws s"

definition hex_val :: "char \<Rightarrow> nat option" where
  "hex_val c =
     (let n = (of_char c :: nat)
      in if 48 \<le> n \<and> n \<le> 57 then Some (n - 48)
         else if 97 \<le> n \<and> n \<le> 102 then Some (n - 87)
         else if 65 \<le> n \<and> n \<le> 70 then Some (n - 55)
         else None)"

definition hex4 :: "char \<Rightarrow> char \<Rightarrow> char \<Rightarrow> char \<Rightarrow> nat option" where
  "hex4 a b c d =
     (case (hex_val a, hex_val b, hex_val c, hex_val d) of
        (Some w, Some x, Some y, Some z) \<Rightarrow> Some (((w * 16 + x) * 16 + y) * 16 + z)
      | _ \<Rightarrow> None)"

definition unescape :: "char \<Rightarrow> char option" where
  "unescape e =
     (if e = CHR 0x22 then Some (CHR 0x22)
      else if e = CHR 0x5C then Some (CHR 0x5C)
      else if e = CHR ''/'' then Some (CHR ''/'')
      else if e = CHR ''b'' then Some (CHR 0x08)
      else if e = CHR ''f'' then Some (CHR 0x0C)
      else if e = CHR ''n'' then Some (CHR 0x0A)
      else if e = CHR ''r'' then Some (CHR 0x0D)
      else if e = CHR ''t'' then Some (CHR 0x09)
      else None)"

definition cons_result :: "char \<Rightarrow> (string \<times> string) option \<Rightarrow> (string \<times> string) option" where
  "cons_result c r = (case r of None \<Rightarrow> None | Some (s, rest) \<Rightarrow> Some (c # s, rest))"

text \<open>The characters of a string literal after its opening quote, up to the closing one.\<close>

fun parse_chars :: "string \<Rightarrow> (string \<times> string) option" where
  "parse_chars [] = None"
| "parse_chars (c # cs) =
     (if c = CHR 0x22 then Some ([], cs)
      else if c = CHR 0x5C then
        (case cs of
           [] \<Rightarrow> None
         | e # cs' \<Rightarrow>
             if e = CHR ''u'' then
               (case cs' of
                  h1 # h2 # h3 # h4 # cs'' \<Rightarrow>
                    (case hex4 h1 h2 h3 h4 of
                       None \<Rightarrow> None
                     | Some n \<Rightarrow> if n < 256 then cons_result (char_of n) (parse_chars cs'') else None)
                | _ \<Rightarrow> None)
             else
               (case unescape e of
                  None \<Rightarrow> None
                | Some ch \<Rightarrow> cons_result ch (parse_chars cs')))
      else if (of_char c :: nat) < 0x20 then None
      else cons_result c (parse_chars cs))"

text \<open>
  A number: an optional minus sign and the digits, \<open>0\<close> alone or a run that does not
  start with \<open>0\<close>. A digit after a leading \<open>0\<close> is a syntax error wherever the number
  stands.
\<close>

definition parse_digits :: "bool \<Rightarrow> string \<Rightarrow> (jsval \<times> string) option" where
  "parse_digits negative s =
     (let ds = takeWhile is_digit s; rest = dropWhile is_digit s
      in if ds = [] then None
         else if 1 < length ds \<and> take 1 ds = ''0'' then None
         else if take 1 rest = ''.'' \<or> take 1 rest = ''e'' \<or> take 1 rest = ''E'' then None
         else (case round_to_double (decimal_value ds) of
                 JNum n \<Rightarrow> Some (JNum (if negative then - n else n), rest)
               | v \<Rightarrow> if negative then None else Some (v, rest)))"

text \<open>
  The readers of values, of the elements of an array after its opening bracket and of
  the members of an object after its opening brace. The first argument bounds the
  number of nested calls; a call is made only after a character is read or from
  \<open>parse_elems\<close> and \<open>parse_members\<close> to \<open>parse_value\<close>, so \<open>JSON_parse\<close> starts with
  more than twice the length of the text. That this is enough is proved below for every
  text that \<open>JSON.stringify\<close> writes.
\<close>

fun parse_value :: "nat \<Rightarrow> string \<Rightarrow> (jsval \<times> string) option"
  and parse_elems :: "nat \<Rightarrow> string \<Rightarrow> (jsval list \<times> string) option"
  and parse_members :: "nat \<Rightarrow> string \<Rightarrow> (jsobj \<times> string) option" where
  "parse_value 0 s = None"
| "parse_value (Suc f) s =
     (case skip_ws s of
        [] \<Rightarrow> None
      | c # cs \<Rightarrow>
          if c = CHR ''n'' then (if take 3 cs = ''ull'' then Some (JNull, drop 3 cs) else None)
          else if c = CHR ''t'' then (if take 3 cs = ''rue'' then Some (JBool True, drop 3 cs) else None)
          else if c = CHR ''f'' then (if take 4 cs = ''alse'' then Some (JBool False, drop 4 cs) else None)
          else if c = CHR 0x22 then
            (case parse_chars cs of None \<Rightarrow> None | Some (str, rest) \<Rightarrow> Some (JStr str, rest))
          else if c = CHR ''['' then
            (case skip_ws cs of
               [] \<Rightarrow> None
             | d # ds \<Rightarrow>
                 if d = CHR '']'' then Some (JArr [], ds)
                 else (case parse_elems f (d # ds) of
                         None \<Rightarrow> None
                       | Some (xs, rest) \<Rightarrow> Some (JArr xs, rest)))
          else if c = CHR ''{'' then
            (case skip_ws cs of
               [] \<Rightarrow> None
             | d # ds \<Rightarrow>
                 if d = CHR ''}'' then Some (JObj [], ds)
                 else (case parse_members f (d # ds) of
                         None \<Rightarrow> None
                       | Some (ps, rest) \<Rightarrow> Some (JObj (spread [] ps), rest)))
          else if c = CHR ''-'' then parse_digits True cs
          else parse_digits False (c # cs))"
| "parse_elems 0 s = None"
| "parse_elems (Suc f) s =
     (case parse_value f s of
        None \<Rightarrow> None
      | Some (x, rest) \<Rightarrow>
          (case skip_ws rest of
             [] \<Rightarrow> None
           | c # cs \<Rightarrow>
               if c = CHR '']'' then Some ([x], cs)
               else if c = CHR '','' then
                 (case parse_elems f cs of
                    None \<Rightarrow> None
                  | Some (xs, rest') \<Rightarrow> Some (x # xs, rest'))
               else None))"
| "parse_members 0 s = None"
| "parse_members (Suc f) s =
     (case skip_ws s of
        [] \<Rightarrow> None
      | q # s1 \<Rightarrow>
          if q \<noteq> CHR 0x22 then None
          else (case parse_chars s1 of
                  None \<Rightarrow> None
                | Some (k, s2) \<Rightarrow>
                    (case skip_ws s2 of
                       [] \<Rightarrow> None
                     | colon # s3 \<Rightarrow>
                         if colon \<noteq> CHR '':'' then None
                         else (case parse_value f s3 of
                                 None \<Rightarrow> None
                               | Some (v, s4) \<Rightarrow>
                                   (case skip_ws s4 of
                                      [] \<Rightarrow> None
                                    | c # cs \<Rightarrow>
                                        if c = CHR ''}'' then Some ([(k, v)], cs)
                                        else if c = CHR '','' then
                                          (case parse_members f cs of
                                             None \<Rightarrow> None
                                           | Some (ps, rest) \<Rightarrow> Some ((k, v) # ps, rest))
                                        else None)))))"

text \<open>
  \<open>JSON.parse(text)\<close>: one value, with nothing but white space after it. The members
  of an object are assigned in the order of the text, so of two members with the same
  key the later value stays.
\<close>

definition JSON_parse :: "string \<Rightarrow> jsval option" where
  "JSON_parse s =
     (case parse_value (2 * length s + 2) s of
        None \<Rightarrow> None
      | Some (v, rest) \<Rightarrow> if skip_ws rest = [] then Some v else None)"

section \<open>Deep equality\<close>


section \<open>Values that JSON can carry\<close>


section \<open>The statements' vocabulary\<close>

text \<open>
  The renaming of the WordPress.org normalizer as the specification words it:
  \<open>slug\<close> to \<open>id\<close>, \<open>preview_url\<close> to \<open>demo_uri\<close>, \<open>screenshot_url\<close> to \<open>screenshot\<close>,
  \<open>download_link\<close> to \<open>download\<close>, every other key to itself.
\<close>

definition wporg_key :: "string \<Rightarrow> string" where
  "wporg_key k =
     (if k = ''slug'' then ''id''
      else if k = ''preview_url'' then ''demo_uri''
      else if k = ''screenshot_url'' then ''screenshot''
      else if k = ''download_link'' then ''download''
      else k)"

definition is_string :: "jsval \<Rightarrow> bool" where
  "is_string v = (case v of JStr s \<Rightarrow> True | _ \<Rightarrow> False)"










text \<open>
  A plain key: one that lodash \<open>get\<close> does not read as a path, and that is no name of
  \<open>Object.prototype\<close>. The keys that some releases of lodash never copy into the result
  of \<open>omitBy\<close>.
\<close>

definition plain_key :: "string \<Rightarrow> bool" where
  "plain_key k = (\<not> path_like k \<and> \<not> inherited_name k)"

definition lodash_guarded_key :: "string \<Rightarrow> bool" where
  "lodash_guarded_key k = (k = ''__proto__'' \<or> k = ''constructor'' \<or> k = ''prototype'')"



section \<open>Notions for the round-trip proof\<close>







section \<open>Properties\<close>

lemma map_of_filter_distinct:
  "distinct (map fst ps) \<Longrightarrow>
   map_of (filter (\<lambda>(k, v). P k v) ps) k =
     (case map_of ps k of None \<Rightarrow> None | Some v \<Rightarrow> if P k v then Some v else None)"
proof (induction ps)
  case Nil
  then show ?case by simp
next
  case (Cons p ps)
  obtain k' v' where p: "p = (k', v')" by (cases p)
  from Cons.prems p have notin: "k' \<notin> fst ` set ps" and d: "distinct (map fst ps)"
    by auto
  from notin have none: "map_of ps k' = None"
    by (simp add: map_of_eq_None_iff)
  show ?case
    using Cons.IH [OF d] none by (auto simp: p split: option.splits)
qed

subsection \<open>Normalizing a query\<close>

lemma omitBy_idem: "omitBy (omitBy ps p) p = omitBy ps p"
  by (simp add: omitBy_def)

lemma getNormalizedThemesQuery_idem:
  "getNormalizedThemesQuery dflt (getNormalizedThemesQuery dflt q) = getNormalizedThemesQuery dflt q"
  by (simp add: getNormalizedThemesQuery_def omitBy_idem)

lemma obj_get_absent: "k \<notin> fst ` set ps \<Longrightarrow> obj_get ps k = JUndefined"
proof -
  assume "k \<notin> fst ` set ps"
  then have "map_of ps k = None" by (simp add: map_of_eq_None_iff)
  then show ?thesis by (simp add: obj_get_def)
qed

lemma strict_equals_undefined: "strict_equals JUndefined v = (v = JUndefined)"
  by (cases v) (simp_all add: strict_equals_def)

lemma index_equals_own: "map_of ps k = Some d \<Longrightarrow> index_equals ps k v = strict_equals d v"
  by (simp add: index_equals_def js_index_def)

lemma index_equals_absent:
  "k \<notin> fst ` set ps \<Longrightarrow> index_equals ps k v = (\<not> inherited_name k \<and> v = JUndefined)"
proof -
  assume "k \<notin> fst ` set ps"
  then have "map_of ps k = None" by (simp add: map_of_eq_None_iff)
  then show ?thesis
    by (simp add: index_equals_def js_index_def strict_equals_undefined)
qed

text \<open>
  Claim C3, as the code has it. Set aside the keys \<open>__proto__\<close>, \<open>constructor\<close> and
  \<open>prototype\<close>. \<open>getNormalizedThemesQuery\<close> keeps a property of the query exactly when
  its value is not strictly equal to \<open>DEFAULT_THEME_QUERY[key]\<close>, and keeps its value.
  For an own key of the default query that lookup is the default value. For a key that
  the default query does not have and that is no name of \<open>Object.prototype\<close> the lookup
  is \<open>undefined\<close>: such a key is kept with its value unless its value is \<open>undefined\<close>,
  and then it is removed. For a key that the default query does not have and that is a
  name of \<open>Object.prototype\<close> the lookup is the inherited built-in: such a key is always
  kept with its value.
\<close>

theorem normalized_query_removes_defaults:
  assumes "distinct (map fst q)" and "\<not> lodash_guarded_key k"
  shows "map_of (getNormalizedThemesQuery dflt q) k =
           (case map_of q k of
              None \<Rightarrow> None
            | Some v \<Rightarrow> if index_equals dflt k v then None else Some v)
         \<and> (map_of dflt k = Some d \<longrightarrow> index_equals dflt k w = strict_equals d w)
         \<and> (k \<notin> fst ` set dflt \<and> \<not> inherited_name k \<longrightarrow>
              map_of (getNormalizedThemesQuery dflt q) k =
                (case map_of q k of
                   None \<Rightarrow> None
                 | Some v \<Rightarrow> if v = JUndefined then None else Some v))
         \<and> (k \<notin> fst ` set dflt \<and> inherited_name k \<longrightarrow>
              map_of (getNormalizedThemesQuery dflt q) k = map_of q k)"
proof -
  have eq: "getNormalizedThemesQuery dflt q =
              filter (\<lambda>(k, v). \<not> index_equals dflt k v) q"
    by (simp add: getNormalizedThemesQuery_def omitBy_def)
  have first: "map_of (getNormalizedThemesQuery dflt q) k =
           (case map_of q k of
              None \<Rightarrow> None
            | Some v \<Rightarrow> if index_equals dflt k v then None else Some v)"
    unfolding eq
    using map_of_filter_distinct [OF assms(1), of "\<lambda>k v. \<not> index_equals dflt k v" k]
    by (simp split: option.splits)
  have own: "map_of dflt k = Some d \<longrightarrow> index_equals dflt k w = strict_equals d w"
    by (simp add: index_equals_own)
  have absent: "index_equals dflt k v = (\<not> inherited_name k \<and> v = JUndefined)"
    if "k \<notin> fst ` set dflt" for v
    using that by (rule index_equals_absent)
  show ?thesis using first own absent by (auto split: option.splits)
qed

theorem normalized_query_removes_defaults_witness:
  "distinct (map fst [(''search'', JStr []), (''page'', JNum 2), (''hasOwnProperty'', JUndefined)])
   \<and> \<not> lodash_guarded_key ''hasOwnProperty''
   \<and> ''hasOwnProperty'' \<notin> fst ` set DEFAULT_THEME_QUERY
   \<and> inherited_name ''hasOwnProperty''
   \<and> map_of (getNormalizedThemesQuery DEFAULT_THEME_QUERY
         [(''search'', JStr []), (''page'', JNum 2), (''hasOwnProperty'', JUndefined)])
       ''hasOwnProperty'' = Some JUndefined"
proof -
  have d: "distinct (map fst [(''search'', JStr []), (''page'', JNum 2), (''hasOwnProperty'', JUndefined)])"
    by simp
  have g: "\<not> lodash_guarded_key ''hasOwnProperty''"
    by (simp add: lodash_guarded_key_def)
  have a: "''hasOwnProperty'' \<notin> fst ` set DEFAULT_THEME_QUERY"
    by (simp add: DEFAULT_THEME_QUERY_def)
  have i: "inherited_name ''hasOwnProperty''"
    by (simp add: inherited_name_def object_prototype_names_def)
  from normalized_query_removes_defaults [OF d g, of DEFAULT_THEME_QUERY] a i
  have "map_of (getNormalizedThemesQuery DEFAULT_THEME_QUERY
         [(''search'', JStr []), (''page'', JNum 2), (''hasOwnProperty'', JUndefined)])
       ''hasOwnProperty''
     = map_of [(''search'', JStr []), (''page'', JNum 2), (''hasOwnProperty'', JUndefined)]
         ''hasOwnProperty''"
    by blast
  then have "map_of (getNormalizedThemesQuery DEFAULT_THEME_QUERY
         [(''search'', JStr []), (''page'', JNum 2), (''hasOwnProperty'', JUndefined)])
       ''hasOwnProperty'' = Some JUndefined"
    by simp
  with d g a i show ?thesis by blast
qed

text \<open>
  Claim C3 as stated says that a key absent from the default query is always kept. The
  query \<open>{ tier: undefined }\<close> has such a key, and normalizing removes it.
\<close>

theorem absent_undefined_key_removed:
  "''tier'' \<notin> fst ` set DEFAULT_THEME_QUERY
   \<and> map_of [(''tier'', JUndefined)] ''tier'' = Some JUndefined
   \<and> map_of (getNormalizedThemesQuery DEFAULT_THEME_QUERY [(''tier'', JUndefined)]) ''tier'' = None"
  by (simp add: DEFAULT_THEME_QUERY_def getNormalizedThemesQuery_def omitBy_def
      index_equals_def js_index_def inherited_name_def object_prototype_names_def
      strict_equals_def)

subsection \<open>Serializing a query\<close>

text \<open>
  Claim C2. Serializing a query that is already normalized gives the same key as
  serializing the query itself, with any site id.
\<close>

theorem serialize_normalized_query:
  "getSerializedThemesQuery dflt (Some (getNormalizedThemesQuery dflt q)) s =
   getSerializedThemesQuery dflt (Some q) s"
  by (simp add: getSerializedThemesQuery_def getNormalizedThemesQuery_idem)

subsection \<open>Reading a key back\<close>

lemma digits_of_nat_0: "digits_of_nat 0 = ''0''"
  by code_simp

lemma bit_length_lower: "0 < n \<Longrightarrow> 2 ^ (bit_length n - 1) \<le> n"
proof (induction n rule: bit_length.induct)
  case (1 n)
  show ?case
  proof (cases "n div 2 = 0")
    case True
    with "1.prems" have "n = 1" by presburger
    then show ?thesis by (simp add: bit_length.simps)
  next
    case False
    then have pos: "0 < n div 2" by simp
    from "1.prems" have n0: "n \<noteq> 0" by simp
    have IH: "2 ^ (bit_length (n div 2) - 1) \<le> n div 2"
      using "1.IH" [OF n0 pos] .
    have bl: "bit_length n = Suc (bit_length (n div 2))"
      using n0 by (subst bit_length.simps) simp
    have bl2: "0 < bit_length (n div 2)"
      using False by (subst bit_length.simps) simp
    then have "(2::nat) ^ (bit_length n - 1) = 2 * 2 ^ (bit_length (n div 2) - 1)"
      by (cases "bit_length (n div 2)") (simp_all add: bl)
    also have "\<dots> \<le> 2 * (n div 2)" using IH by simp
    also have "\<dots> \<le> n" by presburger
    finally show ?thesis .
  qed
qed

lemma round_to_double_cases:
  "round_to_double v = JInfinity \<or> (\<exists>n. round_to_double v = JNum n \<and> (0 < v \<longrightarrow> 0 < n) \<and> (v = 0 \<longrightarrow> n = 0))"
proof (cases "v < 2 ^ 53")
  case True
  then show ?thesis by (simp add: round_to_double_def)
next
  case False
  then have big: "2 ^ 53 \<le> v" by simp
  then have pos: "0 < v" by (simp add: less_le_trans [of 0 "2 ^ 53" v])
  show ?thesis
  proof (cases "2 ^ 1024 - 2 ^ 970 \<le> v")
    case True
    with False show ?thesis by (simp add: round_to_double_def)
  next
    case notinf: False
    define e where "e = bit_length v - 53"
    define q where "q = v div 2 ^ e"
    have "(2::nat) ^ e \<le> 2 ^ (bit_length v - 1)"
      unfolding e_def by (rule power_increasing) simp_all
    also have "\<dots> \<le> v" using bit_length_lower [OF pos] .
    finally have "2 ^ e \<le> v" .
    then have qpos: "0 < q" unfolding q_def by (simp add: div_greater_zero_iff)
    have "\<exists>n. round_to_double v = JNum n \<and> 0 < n"
      using False notinf qpos
      by (simp add: round_to_double_def Let_def e_def q_def)
    with pos show ?thesis by auto
  qed
qed


lemma truthy_round_to_double: "truthy (round_to_double v) = (v \<noteq> 0)"
proof (cases "v = 0")
  case True
  then show ?thesis by (simp add: round_to_double_def)
next
  case False
  then show ?thesis using round_to_double_cases [of v] by auto
qed

lemma js_or_number_undefined:
  "js_or (round_to_double v) JUndefined =
     (if v = 0 then JUndefined else round_to_double v)"
  by (simp add: js_or_def truthy_round_to_double)

lemma deserialized_siteId:
  "siteId (getDeserializedThemesQueryDetails parse s) =
     (case REGEXP_SERIALIZED_QUERY s of
        Some (Some ds, rest) \<Rightarrow>
          if decimal_value ds = 0 then JUndefined else round_to_double (decimal_value ds)
      | _ \<Rightarrow> JUndefined)"
proof (cases "REGEXP_SERIALIZED_QUERY s")
  case None
  then show ?thesis by (simp add: getDeserializedThemesQueryDetails_def)
next
  case (Some m)
  obtain g rest where m: "m = (g, rest)" by (cases m)
  show ?thesis
  proof (cases g)
    case None
    with Some m show ?thesis
      by (simp add: getDeserializedThemesQueryDetails_def Number_of_group_def js_or_def)
  next
    case (Some ds)
    with \<open>REGEXP_SERIALIZED_QUERY s = Some m\<close> m show ?thesis
      by (simp add: getDeserializedThemesQueryDetails_def Number_of_group_def
          js_or_number_undefined)
  qed
qed

lemma regexp_zero_prefix:
  "REGEXP_SERIALIZED_QUERY (CHR ''0'' # CHR '':'' # rest) =
     (if list_ex is_line_terminator rest then None else Some (Some ''0'', rest))"
  by (simp add: REGEXP_SERIALIZED_QUERY_def is_digit_def is_line_terminator_def)

text \<open>
  Claim C10. The site id \<open>0\<close> is falsy: serializing with it gives the same key as
  serializing with no site id, the bare JSON text of the normalized query. Reading back
  any key that begins with \<open>0:\<close> gives no site id, whatever follows the colon and whatever
  \<open>JSON.parse\<close> makes of it.
\<close>

theorem site_id_zero_is_no_site:
  "getSerializedThemesQuery dflt q (JNum 0) = getSerializedThemesQuery dflt q JUndefined
   \<and> getSerializedThemesQuery dflt q (JNum 0) =
       JSON_stringify (getNormalizedThemesQuery dflt (case q of None \<Rightarrow> [] | Some q' \<Rightarrow> q'))
   \<and> siteId (getDeserializedThemesQueryDetails parse (''0:'' @ rest)) = JUndefined"
  by (simp add: getSerializedThemesQuery_def deserialized_siteId regexp_zero_prefix
      decimal_value_def)

text \<open>
  Claim C4, as the code has it. \<open>getDeserializedThemesQueryDetails\<close> returns a record for
  every string and every behaviour of \<open>JSON.parse\<close>, and has no error result. Its
  \<open>query\<close> is \<open>undefined\<close> when the pattern does not match or \<open>JSON.parse\<close> fails on
  the second group. Its \<open>siteId\<close> is \<open>undefined\<close> unless the first group matched a run
  of digits with a nonzero value, and then it is that value as a number: a positive
  integer, or \<open>Infinity\<close> when the run is too long for a double.
\<close>

theorem deserialize_total:
  "(siteId (getDeserializedThemesQueryDetails parse s) = JUndefined
      \<or> siteId (getDeserializedThemesQueryDetails parse s) = JInfinity
      \<or> (\<exists>n. 0 < n \<and> siteId (getDeserializedThemesQueryDetails parse s) = JNum n))
   \<and> (siteId (getDeserializedThemesQueryDetails parse s) =
        (case REGEXP_SERIALIZED_QUERY s of
           Some (Some ds, rest) \<Rightarrow>
             if decimal_value ds = 0 then JUndefined else round_to_double (decimal_value ds)
         | _ \<Rightarrow> JUndefined))
   \<and> (query (getDeserializedThemesQueryDetails parse s) =
        (case REGEXP_SERIALIZED_QUERY s of
           Some (g, rest) \<Rightarrow> (case parse rest of None \<Rightarrow> JUndefined | Some v \<Rightarrow> v)
         | None \<Rightarrow> JUndefined))"
proof -
  have q: "query (getDeserializedThemesQueryDetails parse s) =
        (case REGEXP_SERIALIZED_QUERY s of
           Some (g, rest) \<Rightarrow> (case parse rest of None \<Rightarrow> JUndefined | Some v \<Rightarrow> v)
         | None \<Rightarrow> JUndefined)"
    by (simp add: getDeserializedThemesQueryDetails_def split: option.splits prod.splits)
  have range: "siteId (getDeserializedThemesQueryDetails parse s) = JUndefined
      \<or> siteId (getDeserializedThemesQueryDetails parse s) = JInfinity
      \<or> (\<exists>n. 0 < n \<and> siteId (getDeserializedThemesQueryDetails parse s) = JNum n)"
  proof (cases "REGEXP_SERIALIZED_QUERY s")
    case None
    then show ?thesis by (simp add: deserialized_siteId)
  next
    case (Some m)
    obtain g rest where m: "m = (g, rest)" by (cases m)
    show ?thesis
    proof (cases g)
      case None
      with Some m show ?thesis by (simp add: deserialized_siteId)
    next
      case (Some ds)
      show ?thesis
        using \<open>REGEXP_SERIALIZED_QUERY s = Some m\<close> m Some
          round_to_double_cases [of "decimal_value ds"]
        by (auto simp: deserialized_siteId)
    qed
  qed
  show ?thesis using q range deserialized_siteId [of parse s] by simp
qed

lemma decimal_value_nines:
  "foldl (\<lambda>a c. 10 * a + (of_char c - 48)) (a::nat) (replicate n (CHR ''9'')) + 1 = (a + 1) * 10 ^ n"
proof (induction n arbitrary: a)
  case 0
  show ?case by simp
next
  case (Suc n)
  have "(10 * a + 9 + 1) * 10 ^ n = (a + 1) * (10::nat) ^ Suc n" by (simp add: algebra_simps)
  with Suc.IH [of "10 * a + 9"] show ?case by simp
qed

lemma regexp_nines:
  "0 < n \<Longrightarrow> REGEXP_SERIALIZED_QUERY (replicate n (CHR ''9'') @ '':{}'') =
     Some (Some (replicate n (CHR ''9'')), ''{}'')"
proof -
  assume n: "0 < n"
  have nine: "is_digit (CHR ''9'')" by (simp add: is_digit_def)
  have tw: "takeWhile is_digit (replicate n (CHR ''9'') @ '':{}'') = replicate n (CHR ''9'')"
    using nine by (subst takeWhile_append2) (auto simp: is_digit_def)
  have dw: "dropWhile is_digit (replicate n (CHR ''9'') @ '':{}'') = '':{}''"
    using nine by (subst dropWhile_append2) (auto simp: is_digit_def)
  have lt: "\<not> list_ex is_line_terminator (replicate n (CHR ''9'') @ '':{}'')"
    by (auto simp: list_ex_iff is_line_terminator_def)
  show ?thesis
    unfolding REGEXP_SERIALIZED_QUERY_def tw dw using lt n by simp
qed

text \<open>
  Claim C4 as stated says that the site id is a positive integer or \<open>undefined\<close>. The
  key of 310 nines, a colon and \<open>{}\<close> has the site id \<open>Infinity\<close>.
\<close>

theorem long_digit_run_gives_infinity:
  "siteId (getDeserializedThemesQueryDetails JSON_parse (replicate 310 (CHR ''9'') @ '':{}''))
     = JInfinity"
proof -
  define k :: nat where "k = 310"
  define v where "v = decimal_value (replicate k (CHR ''9''))"
  have kpos: "0 < k" by (simp add: k_def)
  have d: "v + 1 = 10 ^ k"
    unfolding v_def decimal_value_def using decimal_value_nines [of 0 k] by simp
  have big: "(2::nat) ^ 1024 - 2 ^ 970 \<le> 10 ^ 310 - 1" by simp
  from d have "v = 10 ^ k - 1" by simp
  with big have big': "2 ^ 1024 - 2 ^ 970 \<le> v" by (simp add: k_def)
  have "(2::nat) ^ 53 \<le> 2 ^ 1024 - 2 ^ 970" by simp
  with big' have "\<not> v < 2 ^ 53" by simp
  with big' have rd: "round_to_double v = JInfinity"
    by (simp add: round_to_double_def)
  from \<open>\<not> v < 2 ^ 53\<close> have nz: "v \<noteq> 0" by auto
  have "siteId (getDeserializedThemesQueryDetails JSON_parse (replicate k (CHR ''9'') @ '':{}''))
          = (if v = 0 then JUndefined else round_to_double v)"
    unfolding deserialized_siteId regexp_nines [OF kpos] v_def by simp
  with rd nz show ?thesis by (simp add: k_def)
qed

subsection \<open>Premium classifiers\<close>


lemma falsy_not_premium: "\<not> truthy v \<Longrightarrow> \<not> startsWith v ''premium/''"
  by (cases v) (auto simp: startsWith_def lodash_toString_def number_to_string_def digits_of_nat_0)

lemma js_member_of_falsy: "\<not> truthy v \<Longrightarrow> js_member v k = JUndefined"
  by (cases v) (simp_all add: js_member_def)

lemma js_member_obj: "js_member (JObj ps) k = obj_get ps k"
  by (simp add: js_member_def)

lemma get_lodash_stylesheet:
  "get_lodash theme k (JBool False) =
     (if js_member theme k = JUndefined then JBool False else js_member theme k)"
  by (simp add: get_lodash_def Let_def)

lemma isPremium_true_iff:
  "isPremium theme = JBool True \<longleftrightarrow> startsWith (js_member theme ''stylesheet'') ''premium/''"
proof (cases "truthy (js_member theme ''stylesheet'')")
  case True
  then have "js_member theme ''stylesheet'' \<noteq> JUndefined" by auto
  with True show ?thesis
    by (simp add: isPremium_def get_lodash_stylesheet js_and_def)
next
  case False
  then have no: "\<not> startsWith (js_member theme ''stylesheet'') ''premium/''"
    by (rule falsy_not_premium)
  have "isPremium theme \<noteq> JBool True"
  proof (cases "js_member theme ''stylesheet'' = JUndefined")
    case True
    then show ?thesis by (simp add: isPremium_def get_lodash_stylesheet js_and_def)
  next
    case undef: False
    with False show ?thesis
      by (auto simp: isPremium_def get_lodash_stylesheet js_and_def)
  qed
  with no show ?thesis by simp
qed

text \<open>
  Claim C9, as the code has it. \<open>isPremium(theme)\<close> is \<open>true\<close> exactly when the theme's
  \<open>stylesheet\<close> starts with \<open>premium/\<close> (a missing stylesheet does not), and is \<open>false\<close>
  when the stylesheet is missing. \<open>isPremiumTheme\<close> is \<open>false\<close> for an \<open>undefined\<close> or
  \<open>null\<close> theme; for a theme object it is \<open>true\<close> exactly when \<open>isPremium\<close> is \<open>true\<close> or
  \<open>cost.number\<close> is truthy. So the two agree on a theme whose \<open>cost.number\<close> is not
  truthy, and \<open>isPremiumTheme\<close> is \<open>true\<close> whenever \<open>cost.number\<close> is truthy, with or
  without a stylesheet.
\<close>

theorem premium_classifiers:
  "(isPremium theme = JBool True \<longleftrightarrow> startsWith (js_member theme ''stylesheet'') ''premium/'')
   \<and> (js_member theme ''stylesheet'' = JStr s \<longrightarrow>
        (isPremium theme = JBool True \<longleftrightarrow> prefix ''premium/'' s))
   \<and> (js_member theme ''stylesheet'' = JUndefined \<longrightarrow> isPremium theme = JBool False)
   \<and> \<not> isPremiumTheme JUndefined \<and> \<not> isPremiumTheme JNull
   \<and> (isPremiumTheme (JObj ps) \<longleftrightarrow>
        isPremium (JObj ps) = JBool True
        \<or> truthy (js_member (obj_get ps ''cost'') ''number''))"
proof -
  have a: "isPremium theme = JBool True \<longleftrightarrow> startsWith (js_member theme ''stylesheet'') ''premium/''"
    by (rule isPremium_true_iff)
  have b: "js_member theme ''stylesheet'' = JStr s \<longrightarrow>
        (isPremium theme = JBool True \<longleftrightarrow> prefix ''premium/'' s)"
    by (simp add: isPremium_true_iff startsWith_def lodash_toString_def)
  have c: "js_member theme ''stylesheet'' = JUndefined \<longrightarrow> isPremium theme = JBool False"
    by (simp add: isPremium_def get_lodash_stylesheet js_and_def)
  have d: "\<not> isPremiumTheme JUndefined \<and> \<not> isPremiumTheme JNull"
    by (simp add: isPremiumTheme_def)
  have cost: "truthy (js_and c (js_member c ''number'')) = truthy (js_member c ''number'')" for c
    by (cases "truthy c") (simp_all add: js_and_def js_member_of_falsy)
  have e: "isPremiumTheme (JObj ps) \<longleftrightarrow>
        isPremium (JObj ps) = JBool True
        \<or> truthy (js_member (obj_get ps ''cost'') ''number'')"
    using falsy_not_premium [of "js_member (JObj ps) ''stylesheet''"]
    by (auto simp: isPremiumTheme_def isPremium_true_iff cost js_member_obj)
  from a b c d e show ?thesis by blast
qed

theorem premium_classifiers_witness:
  "js_member (JObj [(''stylesheet'', JStr ''premium/mood'')]) ''stylesheet'' = JStr ''premium/mood''
   \<and> isPremium (JObj [(''stylesheet'', JStr ''premium/mood'')]) = JBool True
   \<and> isPremiumTheme (JObj [(''stylesheet'', JStr ''premium/mood'')])"
  using premium_classifiers [of "JObj [(''stylesheet'', JStr ''premium/mood'')]" "''premium/mood''"
      "[(''stylesheet'', JStr ''premium/mood'')]"]
  by (simp add: js_member_def obj_get_def)

text \<open>
  Claim C9 as stated says that \<open>isPremiumTheme\<close> agrees with \<open>isPremium\<close> whenever the
  stylesheet is present. A free theme with a price has a stylesheet, and the two differ.
\<close>

theorem priced_theme_with_stylesheet:
  "js_member (JObj [(''stylesheet'', JStr ''pub/twentysixteen''), (''cost'', JObj [(''number'', JNum 79)])])
      ''stylesheet'' = JStr ''pub/twentysixteen''
   \<and> isPremium (JObj [(''stylesheet'', JStr ''pub/twentysixteen''), (''cost'', JObj [(''number'', JNum 79)])])
       = JBool False
   \<and> isPremiumTheme (JObj [(''stylesheet'', JStr ''pub/twentysixteen''), (''cost'', JObj [(''number'', JNum 79)])])"
  by (simp add: isPremium_def isPremiumTheme_def get_lodash_def js_member_def obj_get_def
      js_and_def startsWith_def lodash_toString_def)

subsection \<open>Theme normalizers\<close>

lemma map_indexed: "map (\<lambda>(v, k). f v) (indexed xs) = map f xs"
proof -
  have "map (\<lambda>(v, k). f v) (zip xs ys) = map f xs" if "length xs = length ys" for ys
    using that by (induction xs ys rule: list_induct2) simp_all
  from this [of "map (\<lambda>i. JNum (int i)) [0 ..< length xs]"] show ?thesis
    by (simp add: indexed_def)
qed

lemma map_lodash_array: "map_lodash (JArr ts) (\<lambda>v k. f v) = map f ts"
  by (simp add: map_lodash_def lodash_entries_def map_indexed)

lemma map_of_obj_put: "map_of (obj_put ps k v) k' = (if k' = k then Some v else map_of ps k')"
  by (induction ps k v rule: obj_put.induct) auto

lemma map_of_omit: "map_of (omit ps k) k' = (if k' = k then None else map_of ps k')"
  by (induction ps) (auto simp: omit_def)

lemma obj_put_fresh: "k \<notin> fst ` set ps \<Longrightarrow> obj_put ps k v = ps @ [(k, v)]"
  by (induction ps k v rule: obj_put.induct) auto

lemma foldl_obj_put_distinct:
  "distinct (map fst acc @ map (\<lambda>(k, v). f k) ps) \<Longrightarrow>
   foldl (\<lambda>result (k, v). obj_put result (f k) v) acc ps = acc @ map (\<lambda>(k, v). (f k, v)) ps"
proof (induction ps arbitrary: acc)
  case Nil
  then show ?case by simp
next
  case (Cons p ps)
  obtain k v where p: "p = (k, v)" by (cases p)
  from Cons.prems p have fresh: "f k \<notin> fst ` set acc"
    by auto
  have put: "obj_put acc (f k) v = acc @ [(f k, v)]"
    using fresh by (rule obj_put_fresh)
  from Cons.prems p have d: "distinct (map fst (acc @ [(f k, v)]) @ map (\<lambda>(k, v). f k) ps)"
    by auto
  show ?case
    using Cons.IH [OF d] by (simp add: p put)
qed

lemma mapKeys_distinct:
  "distinct (map (\<lambda>(k, v). f k) ps) \<Longrightarrow> mapKeys ps (\<lambda>v k. f k) = map (\<lambda>(k, v). (f k, v)) ps"
  using foldl_obj_put_distinct [of "[]" f ps] by (simp add: mapKeys_def)


lemma rename_key_wporg:
  "plain_key k \<Longrightarrow>
   rename_key [(''slug'', ''id''), (''preview_url'', ''demo_uri''),
               (''screenshot_url'', ''screenshot''), (''download_link'', ''download'')] b k
     = wporg_key k"
  by (simp add: rename_key_def wporg_key_def plain_key_def)

lemma mapKeys_cong:
  "(\<And>k v. (k, v) \<in> set ps \<Longrightarrow> f v k = g v k) \<Longrightarrow> mapKeys ps f = mapKeys ps g"
  unfolding mapKeys_def by (rule foldl_cong) auto

lemma array_like_length_strings:
  "list_all (\<lambda>(slug, name). is_string name) tags \<Longrightarrow> array_like_length tags = None"
proof -
  assume a: "list_all (\<lambda>(slug, name). is_string name) tags"
  show ?thesis
  proof (cases "map_of tags ''length''")
    case None
    then show ?thesis by (simp add: array_like_length_def obj_get_def)
  next
    case (Some v)
    then have "(''length'', v) \<in> set tags" by (rule map_of_SomeD)
    with a have "is_string v" by (auto simp: list_all_iff)
    with Some show ?thesis
      by (cases v) (simp_all add: array_like_length_def obj_get_def is_string_def)
  qed
qed

lemma map_lodash_object:
  "array_like_length tags = None \<Longrightarrow>
   map_lodash (JObj tags) f = map (\<lambda>(k, v). f v (JStr k)) tags"
  by (simp add: map_lodash_def lodash_entries_def case_prod_unfold)

lemma wporg_key_tags: "wporg_key k = ''tags'' \<longleftrightarrow> k = ''tags''"
  by (simp add: wporg_key_def)

lemma map_of_renamed_tags:
  "map_of (map (\<lambda>(k, v). (wporg_key k, v)) ps) ''tags'' = map_of ps ''tags''"
proof (induction ps)
  case Nil
  then show ?case by simp
next
  case (Cons p ps)
  obtain k v where p: "p = (k, v)" by (cases p)
  show ?case
  proof (cases "k = ''tags''")
    case True
    then show ?thesis by (simp add: p wporg_key_def)
  next
    case False
    then have "wporg_key k \<noteq> ''tags''" by (simp add: wporg_key_tags)
    with False Cons.IH show ?thesis by (simp add: p)
  qed
qed


text \<open>
  Claim C7, as the code has it. A theme object without \<open>tags\<close> is returned as it is. A
  theme object whose \<open>tags\<close> is an array is returned as a copy without the \<open>tags\<close> key,
  with \<open>taxonomies\<close> set to an object whose only key \<open>theme_feature\<close> holds one term per
  tag, in the order of the tags, each term with a \<open>slug\<close> and nothing else, and with every
  field other than \<open>tags\<close> and \<open>taxonomies\<close> as in the input: a \<open>taxonomies\<close> that the
  input has is replaced as a whole. For \<open>{ tags: ['a', 'b'] }\<close> the result is
  \<open>{ taxonomies: { theme_feature: [{ slug: 'a' }, { slug: 'b' }] } }\<close>.
\<close>

theorem jetpack_normalizer:
  "(obj_get ps ''tags'' = JUndefined \<longrightarrow> normalizeJetpackTheme (JObj ps) = Inr (JObj ps))
   \<and> (obj_get ps ''tags'' = JArr ts \<longrightarrow>
        (\<exists>ps'. normalizeJetpackTheme (JObj ps) = Inr (JObj ps')
           \<and> map_of ps' ''tags'' = None
           \<and> map_of ps' ''taxonomies'' =
               Some (JObj [(''theme_feature'', JArr (map (\<lambda>t. JObj [(''slug'', t)]) ts))])
           \<and> (\<forall>k. k \<noteq> ''tags'' \<and> k \<noteq> ''taxonomies'' \<longrightarrow> map_of ps' k = map_of ps k)))
   \<and> normalizeJetpackTheme (JObj [(''tags'', JArr [JStr ''a'', JStr ''b''])]) =
       Inr (JObj [(''taxonomies'',
              JObj [(''theme_feature'', JArr [JObj [(''slug'', JStr ''a'')], JObj [(''slug'', JStr ''b'')]])])])"
proof -
  have a: "obj_get ps ''tags'' = JUndefined \<longrightarrow> normalizeJetpackTheme (JObj ps) = Inr (JObj ps)"
    by (simp add: normalizeJetpackTheme_def js_prop_def js_member_def err_bind_def)
  have eq: "normalizeJetpackTheme (JObj qs) =
      Inr (JObj (obj_put (omit qs ''tags'') ''taxonomies''
        (JObj [(''theme_feature'', JArr (map (\<lambda>t. JObj [(''slug'', t)]) us))])))"
    if "obj_get qs ''tags'' = JArr us" for qs us
    using that
    by (simp add: normalizeJetpackTheme_def js_prop_def js_member_def err_bind_def
        map_lodash_array)
  have b: "obj_get ps ''tags'' = JArr ts \<longrightarrow>
        (\<exists>ps'. normalizeJetpackTheme (JObj ps) = Inr (JObj ps')
           \<and> map_of ps' ''tags'' = None
           \<and> map_of ps' ''taxonomies'' =
               Some (JObj [(''theme_feature'', JArr (map (\<lambda>t. JObj [(''slug'', t)]) ts))])
           \<and> (\<forall>k. k \<noteq> ''tags'' \<and> k \<noteq> ''taxonomies'' \<longrightarrow> map_of ps' k = map_of ps k))"
  proof
    assume t: "obj_get ps ''tags'' = JArr ts"
    show "\<exists>ps'. normalizeJetpackTheme (JObj ps) = Inr (JObj ps')
           \<and> map_of ps' ''tags'' = None
           \<and> map_of ps' ''taxonomies'' =
               Some (JObj [(''theme_feature'', JArr (map (\<lambda>t. JObj [(''slug'', t)]) ts))])
           \<and> (\<forall>k. k \<noteq> ''tags'' \<and> k \<noteq> ''taxonomies'' \<longrightarrow> map_of ps' k = map_of ps k)"
      by (rule exI [of _ "obj_put (omit ps ''tags'') ''taxonomies''
        (JObj [(''theme_feature'', JArr (map (\<lambda>t. JObj [(''slug'', t)]) ts))])"])
         (simp add: eq [OF t] map_of_obj_put map_of_omit)
  qed
  have c: "normalizeJetpackTheme (JObj [(''tags'', JArr [JStr ''a'', JStr ''b''])]) =
       Inr (JObj [(''taxonomies'',
              JObj [(''theme_feature'', JArr [JObj [(''slug'', JStr ''a'')], JObj [(''slug'', JStr ''b'')]])])])"
    by (subst eq [of _ "[JStr ''a'', JStr ''b'']"]) (simp_all add: obj_get_def omit_def)
  from a b c show ?thesis by blast
qed

theorem jetpack_normalizer_witness:
  "obj_get [(''id'', JStr ''mood''), (''tags'', JArr [JStr ''blog''])] ''tags'' = JArr [JStr ''blog'']
   \<and> normalizeJetpackTheme (JObj [(''id'', JStr ''mood''), (''tags'', JArr [JStr ''blog''])]) =
       Inr (JObj [(''id'', JStr ''mood''),
                  (''taxonomies'', JObj [(''theme_feature'', JArr [JObj [(''slug'', JStr ''blog'')]])])])
   \<and> obj_get [(''id'', JStr ''mood'')] ''tags'' = JUndefined
   \<and> normalizeJetpackTheme (JObj [(''id'', JStr ''mood'')]) = Inr (JObj [(''id'', JStr ''mood'')])"
proof -
  have 1: "obj_get [(''id'', JStr ''mood''), (''tags'', JArr [JStr ''blog''])] ''tags'' = JArr [JStr ''blog'']"
    by (simp add: obj_get_def)
  have 2: "obj_get [(''id'', JStr ''mood'')] ''tags'' = JUndefined"
    by (simp add: obj_get_def)
  have 3: "normalizeJetpackTheme (JObj [(''id'', JStr ''mood''), (''tags'', JArr [JStr ''blog''])]) =
       Inr (JObj [(''id'', JStr ''mood''),
                  (''taxonomies'', JObj [(''theme_feature'', JArr [JObj [(''slug'', JStr ''blog'')]])])])"
    by (simp add: normalizeJetpackTheme_def js_prop_def js_member_def err_bind_def
        map_lodash_array obj_get_def omit_def)
  from jetpack_normalizer [of "[(''id'', JStr ''mood'')]" "[]"] 2
  have 4: "normalizeJetpackTheme (JObj [(''id'', JStr ''mood'')]) = Inr (JObj [(''id'', JStr ''mood'')])"
    by blast
  from 1 2 3 4 show ?thesis by blast
qed

text \<open>
  Claim C7 as stated keeps every field other than \<open>tags\<close>. The theme
  \<open>{ tags: ['a'], taxonomies: { theme_color: [{ slug: 'blue' }] } }\<close> has the field
  \<open>taxonomies\<close>, and the result holds another value under it: the term \<open>blue\<close> of
  \<open>theme_color\<close> is gone.
\<close>

theorem jetpack_taxonomies_replaced:
  "map_of [(''tags'', JArr [JStr ''a'']),
           (''taxonomies'', JObj [(''theme_color'', JArr [JObj [(''slug'', JStr ''blue'')]])])]
      ''taxonomies'' = Some (JObj [(''theme_color'', JArr [JObj [(''slug'', JStr ''blue'')]])])
   \<and> normalizeJetpackTheme
        (JObj [(''tags'', JArr [JStr ''a'']),
               (''taxonomies'', JObj [(''theme_color'', JArr [JObj [(''slug'', JStr ''blue'')]])])])
       = Inr (JObj [(''taxonomies'', JObj [(''theme_feature'', JArr [JObj [(''slug'', JStr ''a'')]])])])"
  by (simp add: normalizeJetpackTheme_def js_prop_def js_member_def err_bind_def
      map_lodash_array obj_get_def omit_def)

lemma normalizeWporgTheme_renamed:
  assumes "list_all (\<lambda>(k, v). plain_key k) theme"
    and "distinct (map (\<lambda>(k, v). wporg_key k) theme)"
  shows "normalizeWporgTheme b theme =
     (let normalizedTheme = map (\<lambda>(k, v). (wporg_key k, v)) theme
      in if \<not> truthy (obj_get theme ''tags'') then normalizedTheme
         else obj_put (omit normalizedTheme ''tags'') ''taxonomies''
                (JObj [(''theme_feature'',
                   JArr (map_lodash (obj_get theme ''tags'')
                          (\<lambda>name slug. JObj [(''name'', name), (''slug'', slug)])))]))"
proof -
  have plain: "plain_key k" if "(k, v) \<in> set theme" for k v
    using assms(1) that by (auto simp: list_all_iff)
  have "mapKeys theme (\<lambda>value key.
           rename_key [(''slug'', ''id''), (''preview_url'', ''demo_uri''),
                       (''screenshot_url'', ''screenshot''), (''download_link'', ''download'')]
             b key)
        = mapKeys theme (\<lambda>v k. wporg_key k)"
    by (rule mapKeys_cong) (simp add: rename_key_wporg plain)
  also have "\<dots> = map (\<lambda>(k, v). (wporg_key k, v)) theme"
    using assms(2) by (rule mapKeys_distinct)
  finally have mk: "mapKeys theme (\<lambda>value key.
           rename_key [(''slug'', ''id''), (''preview_url'', ''demo_uri''),
                       (''screenshot_url'', ''screenshot''), (''download_link'', ''download'')]
             b key)
        = map (\<lambda>(k, v). (wporg_key k, v)) theme" .
  have tags: "obj_get (map (\<lambda>(k, v). (wporg_key k, v)) theme) ''tags'' = obj_get theme ''tags''"
    by (simp add: obj_get_def map_of_renamed_tags)
  show ?thesis
    by (simp add: normalizeWporgTheme_def mk tags Let_def)
qed

text \<open>
  Claim C8, as the code has it. Take a theme object whose keys are plain (none with a
  dot, none with an opening bracket and a closing bracket after it, and none of them a
  name of \<open>Object.prototype\<close>), and of which no two
  get the same name by the renaming \<open>slug\<close> to \<open>id\<close>, \<open>preview_url\<close> to \<open>demo_uri\<close>,
  \<open>screenshot_url\<close> to \<open>screenshot\<close>, \<open>download_link\<close> to \<open>download\<close>. Whatever an
  engine makes of the other keys, the normalizer renames exactly these keys and keeps
  every value and the order. If the theme has no \<open>tags\<close> that is the result.
  If \<open>tags\<close> is a mapping from slugs to names, the result has no \<open>tags\<close>, and its
  \<open>taxonomies\<close> is an object whose only key \<open>theme_feature\<close> holds one term per entry of
  the mapping, in order, with the entry's name and slug. The theme
  \<open>{ slug: 'twentysixteen', tags: { blue: 'Blue' } }\<close> becomes
  \<open>{ id: 'twentysixteen', taxonomies: { theme_feature: [{ name: 'Blue', slug: 'blue' }] } }\<close>.
\<close>

theorem wporg_normalizer:
  assumes "list_all (\<lambda>(k, v). plain_key k) theme"
    and "distinct (map (\<lambda>(k, v). wporg_key k) theme)"
  shows "(obj_get theme ''tags'' = JUndefined \<longrightarrow>
            normalizeWporgTheme b theme = map (\<lambda>(k, v). (wporg_key k, v)) theme)
         \<and> (obj_get theme ''tags'' = JObj tags \<and> list_all (\<lambda>(slug, name). is_string name) tags \<longrightarrow>
              normalizeWporgTheme b theme =
                obj_put (omit (map (\<lambda>(k, v). (wporg_key k, v)) theme) ''tags'') ''taxonomies''
                  (JObj [(''theme_feature'',
                     JArr (map (\<lambda>(slug, name). JObj [(''name'', name), (''slug'', JStr slug)]) tags))])
              \<and> map_of (normalizeWporgTheme b theme) ''tags'' = None
              \<and> (\<forall>k v. k \<noteq> ''tags'' \<and> k \<noteq> ''taxonomies'' \<and> map_of theme k = Some v \<longrightarrow>
                     map_of (normalizeWporgTheme b theme) (wporg_key k) = Some v))
         \<and> normalizeWporgTheme b
              [(''slug'', JStr ''twentysixteen''), (''tags'', JObj [(''blue'', JStr ''Blue'')])] =
             [(''id'', JStr ''twentysixteen''),
              (''taxonomies'',
                 JObj [(''theme_feature'', JArr [JObj [(''name'', JStr ''Blue''), (''slug'', JStr ''blue'')]])])]"
proof -
  note eq = normalizeWporgTheme_renamed [OF assms, of b]
  have a: "obj_get theme ''tags'' = JUndefined \<longrightarrow>
            normalizeWporgTheme b theme = map (\<lambda>(k, v). (wporg_key k, v)) theme"
    by (simp add: eq)
  have inj: "map_of (map (\<lambda>(k, v). (wporg_key k, v)) theme) (wporg_key k) = Some v"
    if "map_of theme k = Some v" for k v
  proof -
    from that have m: "(k, v) \<in> set theme" by (rule map_of_SomeD)
    have d: "distinct (map fst (map (\<lambda>(k, v). (wporg_key k, v)) theme))"
      using assms(2) by (simp add: case_prod_unfold comp_def)
    from m have "(wporg_key k, v) \<in> set (map (\<lambda>(k, v). (wporg_key k, v)) theme)"
      by force
    with d show ?thesis by (rule map_of_is_SomeI)
  qed
  have b: "obj_get theme ''tags'' = JObj tags \<and> list_all (\<lambda>(slug, name). is_string name) tags \<longrightarrow>
              normalizeWporgTheme b theme =
                obj_put (omit (map (\<lambda>(k, v). (wporg_key k, v)) theme) ''tags'') ''taxonomies''
                  (JObj [(''theme_feature'',
                     JArr (map (\<lambda>(slug, name). JObj [(''name'', name), (''slug'', JStr slug)]) tags))])
              \<and> map_of (normalizeWporgTheme b theme) ''tags'' = None
              \<and> (\<forall>k v. k \<noteq> ''tags'' \<and> k \<noteq> ''taxonomies'' \<and> map_of theme k = Some v \<longrightarrow>
                     map_of (normalizeWporgTheme b theme) (wporg_key k) = Some v)"
  proof
    assume h: "obj_get theme ''tags'' = JObj tags \<and> list_all (\<lambda>(slug, name). is_string name) tags"
    then have al: "array_like_length tags = None"
      by (simp add: array_like_length_strings)
    have r: "normalizeWporgTheme b theme =
                obj_put (omit (map (\<lambda>(k, v). (wporg_key k, v)) theme) ''tags'') ''taxonomies''
                  (JObj [(''theme_feature'',
                     JArr (map (\<lambda>(slug, name). JObj [(''name'', name), (''slug'', JStr slug)]) tags))])"
      using h by (simp add: eq map_lodash_object [OF al])
    have other: "wporg_key k \<noteq> ''tags'' \<and> wporg_key k \<noteq> ''taxonomies''"
      if "k \<noteq> ''tags''" "k \<noteq> ''taxonomies''" for k
      using that by (simp add: wporg_key_def)
    show "normalizeWporgTheme b theme =
                obj_put (omit (map (\<lambda>(k, v). (wporg_key k, v)) theme) ''tags'') ''taxonomies''
                  (JObj [(''theme_feature'',
                     JArr (map (\<lambda>(slug, name). JObj [(''name'', name), (''slug'', JStr slug)]) tags))])
              \<and> map_of (normalizeWporgTheme b theme) ''tags'' = None
              \<and> (\<forall>k v. k \<noteq> ''tags'' \<and> k \<noteq> ''taxonomies'' \<and> map_of theme k = Some v \<longrightarrow>
                     map_of (normalizeWporgTheme b theme) (wporg_key k) = Some v)"
      using other inj by (simp add: r map_of_obj_put map_of_omit)
  qed
  have c: "normalizeWporgTheme b
              [(''slug'', JStr ''twentysixteen''), (''tags'', JObj [(''blue'', JStr ''Blue'')])] =
             [(''id'', JStr ''twentysixteen''),
              (''taxonomies'',
                 JObj [(''theme_feature'', JArr [JObj [(''name'', JStr ''Blue''), (''slug'', JStr ''blue'')]])])]"
    by (simp add: normalizeWporgTheme_def mapKeys_def rename_key_def path_like_def
        inherited_name_def object_prototype_names_def obj_get_def omit_def
        map_lodash_def lodash_entries_def array_like_length_def)
  from a b c show ?thesis by blast
qed

theorem wporg_normalizer_witness:
  "list_all (\<lambda>(k, v). plain_key k)
      [(''slug'', JStr ''mood''), (''name'', JStr ''Mood''), (''tags'', JObj [(''blog'', JStr ''Blog'')])]
   \<and> distinct (map (\<lambda>(k, v). wporg_key k)
      [(''slug'', JStr ''mood''), (''name'', JStr ''Mood''), (''tags'', JObj [(''blog'', JStr ''Blog'')])])
   \<and> obj_get [(''slug'', JStr ''mood''), (''name'', JStr ''Mood''), (''tags'', JObj [(''blog'', JStr ''Blog'')])]
        ''tags'' = JObj [(''blog'', JStr ''Blog'')]
   \<and> list_all (\<lambda>(slug, name). is_string name) [(''blog'', JStr ''Blog'')]
   \<and> (\<forall>b. normalizeWporgTheme b
        [(''slug'', JStr ''mood''), (''name'', JStr ''Mood''), (''tags'', JObj [(''blog'', JStr ''Blog'')])] =
       [(''id'', JStr ''mood''), (''name'', JStr ''Mood''),
        (''taxonomies'', JObj [(''theme_feature'', JArr [JObj [(''name'', JStr ''Blog''), (''slug'', JStr ''blog'')]])])])"
proof -
  have p: "list_all (\<lambda>(k, v). plain_key k)
      [(''slug'', JStr ''mood''), (''name'', JStr ''Mood''), (''tags'', JObj [(''blog'', JStr ''Blog'')])]"
    by (simp add: plain_key_def path_like_def inherited_name_def object_prototype_names_def)
  have d: "distinct (map (\<lambda>(k, v). wporg_key k)
      [(''slug'', JStr ''mood''), (''name'', JStr ''Mood''), (''tags'', JObj [(''blog'', JStr ''Blog'')])])"
    by (simp add: wporg_key_def)
  have t: "obj_get [(''slug'', JStr ''mood''), (''name'', JStr ''Mood''), (''tags'', JObj [(''blog'', JStr ''Blog'')])]
        ''tags'' = JObj [(''blog'', JStr ''Blog'')]"
    by (simp add: obj_get_def)
  have s: "list_all (\<lambda>(slug, name). is_string name) [(''blog'', JStr ''Blog'')]"
    by (simp add: is_string_def)
  have "normalizeWporgTheme b
        [(''slug'', JStr ''mood''), (''name'', JStr ''Mood''), (''tags'', JObj [(''blog'', JStr ''Blog'')])] =
       [(''id'', JStr ''mood''), (''name'', JStr ''Mood''),
        (''taxonomies'', JObj [(''theme_feature'', JArr [JObj [(''name'', JStr ''Blog''), (''slug'', JStr ''blog'')]])])]"
    for b
  proof -
  from wporg_normalizer [OF p d, where tags = "[(''blog'', JStr ''Blog'')]" and b = b] t s
  have "normalizeWporgTheme b
        [(''slug'', JStr ''mood''), (''name'', JStr ''Mood''), (''tags'', JObj [(''blog'', JStr ''Blog'')])] =
       obj_put (omit (map (\<lambda>(k, v). (wporg_key k, v))
          [(''slug'', JStr ''mood''), (''name'', JStr ''Mood''), (''tags'', JObj [(''blog'', JStr ''Blog'')])]) ''tags'')
        ''taxonomies''
        (JObj [(''theme_feature'',
           JArr (map (\<lambda>(slug, name). JObj [(''name'', name), (''slug'', JStr slug)]) [(''blog'', JStr ''Blog'')]))])"
    by blast
  then show ?thesis
    by (simp add: wporg_key_def omit_def)
  qed
  with p d t s show ?thesis by blast
qed

text \<open>
  Claim C8 as stated holds the renaming for every theme object. In the theme
  \<open>{ slug: 'a', id: 'b' }\<close>, whose keys are plain, the keys \<open>slug\<close> and \<open>id\<close> both end as
  \<open>id\<close>: the result is \<open>{ id: 'b' }\<close>, and the value of \<open>slug\<close> is under no key.
\<close>

theorem wporg_key_collision:
  "map_of [(''slug'', JStr ''a''), (''id'', JStr ''b'')] ''slug'' = Some (JStr ''a'')
   \<and> list_all (\<lambda>(k, v). plain_key k) [(''slug'', JStr ''a''), (''id'', JStr ''b'')]
   \<and> (\<forall>b. normalizeWporgTheme b [(''slug'', JStr ''a''), (''id'', JStr ''b'')] = [(''id'', JStr ''b'')])"
  by (simp add: normalizeWporgTheme_def mapKeys_def rename_key_def obj_get_def
      plain_key_def path_like_def inherited_name_def object_prototype_names_def)

subsection \<open>Matching a theme against a query\<close>








































subsection \<open>Writing a query and reading it back\<close>







































































end
